theory Spec2Isabelle
  imports Complex_Main
begin

section \<open>The differential drive odometry motion model of beluga\<close>

text \<open>
  A shallow embedding of \<^verbatim>\<open>beluga/motion/differential_drive_model.hpp\<close>.
  The C++ type \<^verbatim>\<open>double\<close> is idealised as \<^typ>\<open>real\<close>: rounding, overflow and
  signed zeros are outside the model. The one non-real value the code can produce from
  real inputs, the NaN that \<^verbatim>\<open>std::sqrt\<close> returns on a negative argument, is kept as
  \<^term>\<open>None\<close>. The readers-writer lock is not modelled: every operation is one atomic
  step on the state of the model.
\<close>

subsection \<open>Rotations and rigid transforms\<close>

type_synonym Vector2d = "real \<times> real"

definition vec_add :: "Vector2d \<Rightarrow> Vector2d \<Rightarrow> Vector2d" where
  "vec_add a b = (fst a + fst b, snd a + snd b)"

definition vec_sub :: "Vector2d \<Rightarrow> Vector2d \<Rightarrow> Vector2d" where
  "vec_sub a b = (fst a - fst b, snd a - snd b)"

definition vec_norm :: "Vector2d \<Rightarrow> real" where
  "vec_norm v = sqrt (fst v * fst v + snd v * snd v)"

text \<open>
  \<^verbatim>\<open>std::atan2(y, x)\<close> on reals: the angle in \<open>(-\<pi>, \<pi>]\<close> of the point \<open>(x, y)\<close>,
  and \<open>0\<close> at the origin.
\<close>

definition std_atan2 :: "real \<Rightarrow> real \<Rightarrow> real" where
  "std_atan2 y x =
     (if 0 < x then arctan (y / x)
      else if x < 0 \<and> 0 \<le> y then arctan (y / x) + pi
      else if x < 0 \<and> y < 0 then arctan (y / x) - pi
      else if 0 < y then pi / 2
      else if y < 0 then - (pi / 2)
      else 0)"

text \<open>
  \<^verbatim>\<open>std::sqrt\<close>: the square root of a negative number is NaN, here \<^term>\<open>None\<close>
  (the \<^term>\<open>sqrt\<close> of HOL is odd instead: \<open>sqrt (- 4) = - 2\<close>).
\<close>

definition std_sqrt :: "real \<Rightarrow> real option" where
  "std_sqrt x = (if x < 0 then None else Some (sqrt x))"

text \<open>
  Modelled from the spec: the Sophus library (\<^verbatim>\<open>sophus/so2.hpp\<close>, \<^verbatim>\<open>sophus/se2.hpp\<close>)
  is not part of the repository; the spec assumes its primitives (a wrap-safe 2D rotation,
  composition and inversion of rigid 2D transforms, translation extraction). A rotation
  \<^verbatim>\<open>Sophus::SO2d\<close> is a complex number of modulus one; \<^verbatim>\<open>SO2d{theta}\<close> is
  \<open>cos theta + i sin theta\<close>, \<^verbatim>\<open>operator*\<close> is the complex product, \<^verbatim>\<open>inverse()\<close> the
  conjugate, and \<^verbatim>\<open>log()\<close> is \<^verbatim>\<open>atan2\<close> of the imaginary and the real part, so an
  angle in \<open>(-\<pi>, \<pi>]\<close>. A rotation acts on a point as the rotation matrix does.
\<close>

typedef SO2d = "{z :: complex. cmod z = 1}"
  by (rule exI [of _ 1]) simp

setup_lifting type_definition_SO2d

lift_definition so2_exp :: "real \<Rightarrow> SO2d" is "\<lambda>theta. cis theta"
  by simp

lift_definition so2_log :: "SO2d \<Rightarrow> real" is "\<lambda>z. std_atan2 (Im z) (Re z)" .

lift_definition so2_inverse :: "SO2d \<Rightarrow> SO2d" is "\<lambda>z. cnj z"
  by simp

lift_definition so2_mult :: "SO2d \<Rightarrow> SO2d \<Rightarrow> SO2d" is "\<lambda>a b. a * b"
  by (simp add: norm_mult)

lift_definition so2_act :: "SO2d \<Rightarrow> Vector2d \<Rightarrow> Vector2d" is
  "\<lambda>z p. (Re z * fst p - Im z * snd p, Im z * fst p + Re z * snd p)" .

text \<open>
  Modelled from the spec: \<^verbatim>\<open>Sophus::SE2d\<close>, a rotation and a translation. The product
  of two transforms rotates the right translation by the left rotation:
  \<open>(R\<^sub>1, t\<^sub>1) * (R\<^sub>2, t\<^sub>2) = (R\<^sub>1 R\<^sub>2, t\<^sub>1 + R\<^sub>1 t\<^sub>2)\<close>.
\<close>

record SE2d =
  so2 :: SO2d
  translation :: Vector2d

definition se2_mult :: "SE2d \<Rightarrow> SE2d \<Rightarrow> SE2d" where
  "se2_mult a b =
     \<lparr>so2 = so2_mult (so2 a) (so2 b),
      translation = vec_add (translation a) (so2_act (so2 a) (translation b))\<rparr>"

subsection \<open>Parameters and state of the model\<close>

text \<open>
  The four noise coefficients (\<open>alpha1\<close> to \<open>alpha4\<close>) and the distance threshold that
  detects a rotation in place. The C++ struct gives the threshold the default \<open>0.01\<close>; a
  record has no defaults, so every value of the record names its threshold.
\<close>

record DifferentialDriveModelParam =
  rotation_noise_from_rotation :: real
  rotation_noise_from_translation :: real
  translation_noise_from_translation :: real
  translation_noise_from_rotation :: real
  distance_threshold :: real

text \<open>
  \<^verbatim>\<open>std::normal_distribution<double>::param_type\<close>: a mean and a standard deviation.
  The standard deviation is the result of \<^verbatim>\<open>std::sqrt\<close>, so it may be NaN.
\<close>

record DistributionParam =
  mean :: real
  stddev :: "real option"

text \<open>
  The data members of the class (the trailing underscore of the C++ names is dropped,
  the mutex is left out).
\<close>

record DifferentialDriveModel =
  params :: DifferentialDriveModelParam
  last_pose :: "SE2d option"
  first_rotation_params :: DistributionParam
  second_rotation_params :: DistributionParam
  translation_params :: DistributionParam

text \<open>
  The constructor stores the parameters; the other members take their default
  initialisers: no last pose, and the three distributions at \<open>{0.0, 0.0}\<close>.
\<close>

definition new_DifferentialDriveModel :: "DifferentialDriveModelParam \<Rightarrow> DifferentialDriveModel" where
  "new_DifferentialDriveModel ps =
     \<lparr>params = ps,
      last_pose = None,
      first_rotation_params = \<lparr>mean = 0, stddev = Some 0\<rparr>,
      second_rotation_params = \<lparr>mean = 0, stddev = Some 0\<rparr>,
      translation_params = \<lparr>mean = 0, stddev = Some 0\<rparr>\<rparr>"

subsection \<open>The operations\<close>

definition rotation_variance :: "SO2d \<Rightarrow> real" where
  "rotation_variance rotation =
     (let flipped_rotation = so2_mult rotation (so2_exp pi);
          delta = min \<bar>so2_log rotation\<bar> \<bar>so2_log flipped_rotation\<bar>
      in delta * delta)"

definition update_motion :: "DifferentialDriveModel \<Rightarrow> SE2d \<Rightarrow> DifferentialDriveModel" where
  "update_motion m pose =
     (case last_pose m of
        None \<Rightarrow> m\<lparr>last_pose := Some pose\<rparr>
      | Some prev \<Rightarrow>
          (let translation' = vec_sub (translation pose) (translation prev);
               distance = vec_norm translation';
               distance_variance = distance * distance;
               previous_orientation = so2 prev;
               current_orientation = so2 pose;
               first_rotation =
                 (if distance > distance_threshold (params m)
                  then so2_mult (so2_exp (std_atan2 (snd translation') (fst translation')))
                         (so2_inverse previous_orientation)
                  else so2_exp 0);
               second_rotation =
                 so2_mult (so2_mult current_orientation (so2_inverse previous_orientation))
                   (so2_inverse first_rotation);
               combined_rotation = so2_mult first_rotation second_rotation
           in m\<lparr>first_rotation_params :=
                  \<lparr>mean = so2_log first_rotation,
                   stddev = std_sqrt
                     (rotation_noise_from_rotation (params m) * rotation_variance first_rotation +
                      rotation_noise_from_translation (params m) * distance_variance)\<rparr>,
                translation_params :=
                  \<lparr>mean = distance,
                   stddev = std_sqrt
                     (translation_noise_from_translation (params m) * distance_variance +
                      translation_noise_from_rotation (params m) * rotation_variance combined_rotation)\<rparr>,
                second_rotation_params :=
                  \<lparr>mean = so2_log second_rotation,
                   stddev = std_sqrt
                     (rotation_noise_from_rotation (params m) * rotation_variance second_rotation +
                      rotation_noise_from_translation (params m) * distance_variance)\<rparr>,
                last_pose := Some pose\<rparr>))"

definition latest_motion_update :: "DifferentialDriveModel \<Rightarrow> SE2d option" where
  "latest_motion_update m = last_pose m"

text \<open>
  Modelled from the spec: \<^verbatim>\<open>std::normal_distribution\<close> and the random bit generator
  belong to the C++ standard library. A draw takes a standard normal variate \<open>z\<close> from the
  random source and returns it scaled by the standard deviation and shifted by the mean.
  The random source is a state \<open>gen\<close> (the generator and the thread-local distribution
  object) with a function \<open>normal\<close> that yields the next variate and the next state; the
  model is stated for every such function. With a NaN standard deviation the draw is NaN.
\<close>

definition normal_distribution ::
    "('g \<Rightarrow> real \<times> 'g) \<Rightarrow> 'g \<Rightarrow> DistributionParam \<Rightarrow> real option \<times> 'g" where
  "normal_distribution normal gen p =
     (case normal gen of
        (z, gen') \<Rightarrow> (case stddev p of None \<Rightarrow> None | Some sd \<Rightarrow> Some (z * sd + mean p), gen'))"

text \<open>
  \<^verbatim>\<open>apply_motion\<close> returns the moved pose and leaves the random source advanced by
  three draws. The pose is \<^term>\<open>None\<close> when a drawn value is NaN: the C++ result then
  has NaN components and is no pose over the reals.
\<close>

definition apply_motion ::
    "('g \<Rightarrow> real \<times> 'g) \<Rightarrow> DifferentialDriveModel \<Rightarrow> SE2d \<Rightarrow> 'g \<Rightarrow> SE2d option \<times> 'g" where
  "apply_motion normal m state gen =
     (case normal_distribution normal gen (first_rotation_params m) of (first_rotation, gen1) \<Rightarrow>
      case normal_distribution normal gen1 (translation_params m) of (translation', gen2) \<Rightarrow>
      case normal_distribution normal gen2 (second_rotation_params m) of (second_rotation, gen3) \<Rightarrow>
        (case (first_rotation, translation', second_rotation) of
           (Some f, Some d, Some s) \<Rightarrow>
             Some (se2_mult
                     (se2_mult state \<lparr>so2 = so2_exp f, translation = (0, 0)\<rparr>)
                     \<lparr>so2 = so2_exp s, translation = (d, 0)\<rparr>)
         | _ \<Rightarrow> None,
         gen3))"

subsection \<open>The vocabulary of the specification\<close>

text \<open>
  A pure rotation and a pure translation as rigid transforms, the decomposition of an odometry
  step and the rotation variance, each written after the words of the specification.
\<close>

definition Rotate :: "real \<Rightarrow> SE2d" where
  "Rotate theta = \<lparr>so2 = so2_exp theta, translation = (0, 0)\<rparr>"

definition Translate :: "Vector2d \<Rightarrow> SE2d" where
  "Translate v = \<lparr>so2 = so2_exp 0, translation = v\<rparr>"

definition odometry_distance :: "SE2d \<Rightarrow> SE2d \<Rightarrow> real" where
  "odometry_distance prev pose = vec_norm (vec_sub (translation pose) (translation prev))"

definition spec_first_rotation :: "real \<Rightarrow> SE2d \<Rightarrow> SE2d \<Rightarrow> SO2d" where
  "spec_first_rotation threshold prev pose =
     (if odometry_distance prev pose > threshold
      then so2_mult
             (so2_exp (std_atan2 (snd (translation pose) - snd (translation prev))
                                 (fst (translation pose) - fst (translation prev))))
             (so2_inverse (so2 prev))
      else so2_exp 0)"

definition spec_second_rotation :: "real \<Rightarrow> SE2d \<Rightarrow> SE2d \<Rightarrow> SO2d" where
  "spec_second_rotation threshold prev pose =
     so2_mult (so2_mult (so2 pose) (so2_inverse (so2 prev)))
       (so2_inverse (spec_first_rotation threshold prev pose))"

definition rot_var :: "SO2d \<Rightarrow> real" where
  "rot_var r = (min \<bar>so2_log r\<bar> \<bar>so2_log (so2_mult r (so2_exp pi))\<bar>)\<^sup>2"

text \<open>
  The model with its three standard deviations set to zero and the means kept: sampling
  from it composes the mean first rotation, the mean translation and the mean second rotation.
\<close>

definition zero_noise :: "DifferentialDriveModel \<Rightarrow> DifferentialDriveModel" where
  "zero_noise m =
     m\<lparr>first_rotation_params := (first_rotation_params m)\<lparr>stddev := Some 0\<rparr>,
       translation_params := (translation_params m)\<lparr>stddev := Some 0\<rparr>,
       second_rotation_params := (second_rotation_params m)\<lparr>stddev := Some 0\<rparr>\<rparr>"

subsection \<open>Concrete inputs\<close>

text \<open>
  The parameters and the odometry poses \<open>(0,0,0)\<close>, \<open>(1,0,0)\<close>, \<open>(1,0,\<pi>/2)\<close> of the scenario
  of the specification, a model with non-zero noise, and a random source that yields
  \<open>1, 2, 3, \<dots>\<close>.
\<close>

definition scenario_params :: DifferentialDriveModelParam where
  "scenario_params =
     \<lparr>rotation_noise_from_rotation = 1 / 10,
      rotation_noise_from_translation = 1 / 10,
      translation_noise_from_translation = 1 / 10,
      translation_noise_from_rotation = 1 / 10,
      distance_threshold = 1 / 100\<rparr>"

definition scenario_pose0 :: SE2d where
  "scenario_pose0 = \<lparr>so2 = so2_exp 0, translation = (0, 0)\<rparr>"

definition scenario_pose1 :: SE2d where
  "scenario_pose1 = \<lparr>so2 = so2_exp 0, translation = (1, 0)\<rparr>"

definition scenario_pose2 :: SE2d where
  "scenario_pose2 = \<lparr>so2 = so2_exp (pi / 2), translation = (1, 0)\<rparr>"

definition sample_model :: DifferentialDriveModel where
  "sample_model =
     \<lparr>params = scenario_params, last_pose = None,
      first_rotation_params = \<lparr>mean = 1, stddev = Some 2\<rparr>,
      second_rotation_params = \<lparr>mean = 0, stddev = Some 1\<rparr>,
      translation_params = \<lparr>mean = 3, stddev = Some 0\<rparr>\<rparr>"

definition counting_source :: "nat \<Rightarrow> real \<times> nat" where
  "counting_source n = (real n, Suc n)"

text \<open>
  A step of half the threshold to the side, a quarter turn in place, and parameters with
  negative coefficients.
\<close>

definition small_step_pose :: SE2d where
  "small_step_pose = \<lparr>so2 = so2_exp 0, translation = (0, 1 / 200)\<rparr>"

definition quarter_turn_pose :: SE2d where
  "quarter_turn_pose = \<lparr>so2 = so2_exp (pi / 2), translation = (0, 0)\<rparr>"

definition negative_params :: DifferentialDriveModelParam where
  "negative_params =
     \<lparr>rotation_noise_from_rotation = - (1 / 10),
      rotation_noise_from_translation = - (1 / 10),
      translation_noise_from_translation = - (1 / 10),
      translation_noise_from_rotation = - (1 / 10),
      distance_threshold = 1 / 100\<rparr>"

subsection \<open>Facts about angles and rotations\<close>

lemma std_atan2_bounds: "- pi < std_atan2 y x \<and> std_atan2 y x \<le> pi"
proof -
  have b: "- (pi / 2) < arctan (y / x)" "arctan (y / x) < pi / 2"
    by (rule arctan_lbound, rule arctan_ubound)
  have neg: "y < 0 \<Longrightarrow> x < 0 \<Longrightarrow> 0 < arctan (y / x)"
    by (simp add: zero_less_divide_iff)
  have pos: "0 \<le> y \<Longrightarrow> x < 0 \<Longrightarrow> arctan (y / x) \<le> 0"
    by (simp add: divide_le_0_iff)
  show ?thesis
    using b neg pos pi_gt_zero unfolding std_atan2_def by (auto simp: not_less)
qed

lemma sqrt_factor:
  assumes "x \<noteq> 0"
  shows "sqrt (x * x + y * y) = \<bar>x\<bar> * sqrt (1 + (y / x)\<^sup>2)"
proof -
  have "x * x + y * y = x\<^sup>2 * (1 + (y / x)\<^sup>2)"
    using assms by (simp add: power2_eq_square field_simps)
  then show ?thesis
    by (simp add: real_sqrt_mult)
qed

lemma sqrt_one_plus_pos: "0 < sqrt (1 + (t::real)\<^sup>2)"
  by (simp add: add_pos_nonneg)

lemma std_atan2_polar:
  "sqrt (x * x + y * y) * cos (std_atan2 y x) = x \<and> sqrt (x * x + y * y) * sin (std_atan2 y x) = y"
proof -
  consider (right) "0 < x" | (left) "x < 0" | (up) "x = 0" "0 < y"
    | (down) "x = 0" "y < 0" | (origin) "x = 0" "y = 0"
    by linarith
  then show ?thesis
  proof cases
    case right
    then show ?thesis
      using sqrt_one_plus_pos [of "y / x"]
      by (simp add: std_atan2_def sqrt_factor cos_arctan sin_arctan)
  next
    case left
    then show ?thesis
      using sqrt_one_plus_pos [of "y / x"]
      by (simp add: std_atan2_def sqrt_factor cos_arctan sin_arctan)
  qed (simp_all add: std_atan2_def)
qed

lemma cos_sin_unique:
  assumes "cos a = cos b" "sin a = sin b" "- pi < a" "a \<le> pi" "- pi < b" "b \<le> pi"
  shows "a = b"
proof -
  have "sgn (cis a) = cis a" by (simp add: sgn_div_norm)
  moreover have "cis a = cis b" using assms(1,2) by (simp add: complex_eq_iff)
  ultimately have "Arg (cis a) = a" "Arg (cis a) = b"
    using assms(3-6) by (auto intro: cis_Arg_unique)
  then show ?thesis by simp
qed

lemma so2_exp_log: "so2_exp (so2_log r) = r"
proof (transfer)
  fix r :: complex
  assume "cmod r = 1"
  then have "sqrt (Re r * Re r + Im r * Im r) = 1"
    by (simp add: cmod_def power2_eq_square)
  with std_atan2_polar [of "Re r" "Im r"]
  show "cis (std_atan2 (Im r) (Re r)) = r"
    by (simp add: complex_eq_iff)
qed

lemma so2_log_bounds: "- pi < so2_log r \<and> so2_log r \<le> pi"
  by transfer (rule std_atan2_bounds)

lemma so2_exp_eq_iff: "so2_exp a = so2_exp b \<longleftrightarrow> cos a = cos b \<and> sin a = sin b"
  by transfer (simp add: complex_eq_iff)

lemma so2_log_exp:
  assumes "- pi < a" "a \<le> pi"
  shows "so2_log (so2_exp a) = a"
proof (rule cos_sin_unique)
  have "so2_exp (so2_log (so2_exp a)) = so2_exp a"
    by (rule so2_exp_log)
  then show "cos (so2_log (so2_exp a)) = cos a" "sin (so2_log (so2_exp a)) = sin a"
    by (simp_all only: so2_exp_eq_iff)
  show "- pi < so2_log (so2_exp a)" "so2_log (so2_exp a) \<le> pi"
    using so2_log_bounds [of "so2_exp a"] by simp_all
qed (use assms in simp_all)

lemma so2_mult_exp: "so2_mult (so2_exp a) (so2_exp b) = so2_exp (a + b)"
  by transfer (simp add: cis_mult)

lemma so2_inverse_exp: "so2_inverse (so2_exp a) = so2_exp (- a)"
  by transfer (simp add: cis_cnj)

lemma so2_mult_commute: "so2_mult a b = so2_mult b a"
  by transfer (simp add: mult.commute)

lemma so2_mult_assoc: "so2_mult (so2_mult a b) c = so2_mult a (so2_mult b c)"
  by transfer (simp add: mult.assoc)

lemma unit_mult_cnj: "cmod z = 1 \<Longrightarrow> z * cnj z = 1"
  using complex_norm_square [of z] by simp

lemma so2_mult_inverse: "so2_mult a (so2_inverse a) = so2_exp 0"
  by transfer (simp add: unit_mult_cnj)

lemma so2_mult_one: "so2_mult a (so2_exp 0) = a" "so2_mult (so2_exp 0) a = a"
  by (transfer, simp)+

lemma so2_exp_period: "so2_exp (a + 2 * pi) = so2_exp a"
  by transfer (simp add: complex_eq_iff)

lemma so2_act_exp: "so2_act (so2_exp a) (x, y) = (cos a * x - sin a * y, sin a * x + cos a * y)"
  by transfer simp

lemma so2_act_zero: "so2_act r (0, 0) = (0, 0)"
  by transfer simp

lemma so2_act_atan2:
  "so2_act (so2_exp (std_atan2 (snd v) (fst v))) (vec_norm v, 0) = v"
  using std_atan2_polar [of "fst v" "snd v"]
  by (cases v) (simp add: so2_act_exp vec_norm_def mult.commute)

lemma so2_residual:
  "so2_mult (so2_mult l f) (so2_mult (so2_mult n (so2_inverse l)) (so2_inverse f)) = n"
proof transfer
  fix l f n :: complex
  assume "cmod l = 1" "cmod f = 1" "cmod n = 1"
  then have "l * cnj l = 1" "f * cnj f = 1"
    by (simp_all add: unit_mult_cnj)
  then have "(l * cnj l) * (f * cnj f) * n = n"
    by simp
  then show "l * f * (n * cnj l * cnj f) = n"
    by (simp add: mult_ac)
qed

lemma so2_conjugate:
  "so2_mult l (so2_mult r (so2_inverse l)) = r"
proof transfer
  fix l r :: complex
  assume "cmod l = 1"
  then have "l * cnj l = 1"
    by (simp add: unit_mult_cnj)
  then have "(l * cnj l) * r = r"
    by simp
  then show "l * (r * cnj l) = r"
    by (simp add: mult_ac)
qed

lemma rotation_variance_flip:
  "rotation_variance (so2_mult r (so2_exp pi)) = rotation_variance r"
proof -
  have "so2_mult (so2_mult r (so2_exp pi)) (so2_exp pi) = r"
    by (simp add: so2_mult_assoc so2_mult_exp so2_exp_period [of 0, simplified] so2_mult_one)
  then show ?thesis
    by (simp add: rotation_variance_def Let_def min.commute)
qed

lemma so2_log_zero: "so2_log (so2_exp 0) = 0"
  by (rule so2_log_exp) simp_all

lemma rotation_variance_zero: "rotation_variance (so2_exp 0) = 0"
  by (simp add: rotation_variance_def Let_def so2_mult_one so2_log_zero so2_log_exp)

lemma so2_act_mult: "so2_act (so2_mult a b) v = so2_act a (so2_act b v)"
  by transfer (simp add: algebra_simps)

lemma so2_act_add: "so2_act a (vec_add v w) = vec_add (so2_act a v) (so2_act a w)"
  unfolding vec_add_def by transfer (simp add: algebra_simps)

lemma vec_add_assoc: "vec_add (vec_add u v) w = vec_add u (vec_add v w)"
  by (simp add: vec_add_def)

lemma se2_mult_assoc: "se2_mult (se2_mult a b) c = se2_mult a (se2_mult b c)"
  by (simp add: se2_mult_def so2_mult_assoc so2_act_mult so2_act_add vec_add_assoc)

lemma se2_mult_identity: "se2_mult state \<lparr>so2 = so2_exp 0, translation = (0, 0)\<rparr> = state"
  by (simp add: se2_mult_def so2_mult_one so2_act_zero vec_add_def)

lemma rot_var_eq: "rotation_variance r = rot_var r"
  by (simp add: rotation_variance_def rot_var_def Let_def power2_eq_square)

lemma rot_var_zero: "rot_var (so2_exp 0) = 0"
  using rotation_variance_zero by (simp add: rot_var_eq)

lemma so2_log_quarter: "so2_log (so2_exp (pi / 2)) = pi / 2"
  by (rule so2_log_exp) simp_all

lemma so2_three_quarter: "so2_mult (so2_exp (pi / 2)) (so2_exp pi) = so2_exp (- (pi / 2))"
  using so2_exp_period [of "- (pi / 2)"] by (simp add: so2_mult_exp)

lemma so2_log_minus_quarter: "so2_log (so2_exp (- (pi / 2))) = - (pi / 2)"
proof (rule so2_log_exp)
  show "- pi < - (pi / 2)"
    using pi_gt_zero by simp
  show "- (pi / 2) \<le> pi"
    using pi_gt_zero by linarith
qed

lemma rotation_variance_quarter: "rotation_variance (so2_exp (pi / 2)) = (pi / 2) * (pi / 2)"
  by (simp add: rotation_variance_def Let_def so2_three_quarter so2_log_quarter
      so2_log_minus_quarter)

lemma vec_add_sub: "vec_add a (vec_sub b a) = b"
  by (simp add: vec_add_def vec_sub_def)

subsection \<open>Facts about the operations and the concrete inputs\<close>

lemma update_motion_last_pose: "last_pose (update_motion m pose) = Some pose"
  by (simp add: update_motion_def Let_def split: option.split)

lemma update_motion_params: "params (update_motion m pose) = params m"
  by (simp add: update_motion_def Let_def split: option.split)

lemma scenario_params_fields:
  "rotation_noise_from_rotation scenario_params = 1 / 10"
  "rotation_noise_from_translation scenario_params = 1 / 10"
  "translation_noise_from_translation scenario_params = 1 / 10"
  "translation_noise_from_rotation scenario_params = 1 / 10"
  "distance_threshold scenario_params = 1 / 100"
  by (simp_all add: scenario_params_def)

lemma scenario_distance01: "odometry_distance scenario_pose0 scenario_pose1 = 1"
  by (simp add: odometry_distance_def scenario_pose0_def scenario_pose1_def vec_norm_def vec_sub_def)

lemma scenario_first01: "spec_first_rotation (1 / 100) scenario_pose0 scenario_pose1 = so2_exp 0"
  by (simp add: spec_first_rotation_def scenario_distance01)
    (simp add: scenario_pose0_def scenario_pose1_def std_atan2_def so2_inverse_exp so2_mult_exp)

lemma scenario_second01: "spec_second_rotation (1 / 100) scenario_pose0 scenario_pose1 = so2_exp 0"
  by (simp add: spec_second_rotation_def scenario_first01)
    (simp add: scenario_pose0_def scenario_pose1_def so2_inverse_exp so2_mult_exp)

lemma first_update_state:
  "update_motion (new_DifferentialDriveModel ps) p =
     (new_DifferentialDriveModel ps)\<lparr>last_pose := Some p\<rparr>"
  by (simp add: update_motion_def new_DifferentialDriveModel_def)

lemma scenario_distance12: "vec_norm (vec_sub (translation scenario_pose2) (translation scenario_pose1)) = 0"
  by (simp add: scenario_pose1_def scenario_pose2_def vec_norm_def vec_sub_def)

lemma scenario_state1:
  "last_pose (update_motion (new_DifferentialDriveModel scenario_params) scenario_pose0) = Some scenario_pose0"
  "params (update_motion (new_DifferentialDriveModel scenario_params) scenario_pose0) = scenario_params"
  by (simp_all add: update_motion_last_pose update_motion_params new_DifferentialDriveModel_def)

lemma scenario_state2:
  "last_pose (update_motion (update_motion (new_DifferentialDriveModel scenario_params) scenario_pose0) scenario_pose1) = Some scenario_pose1"
  "params (update_motion (update_motion (new_DifferentialDriveModel scenario_params) scenario_pose0) scenario_pose1) = scenario_params"
  by (simp_all add: update_motion_last_pose update_motion_params new_DifferentialDriveModel_def)

lemma quarter_turn_update:
  "second_rotation_params
     (update_motion (update_motion (new_DifferentialDriveModel ps) scenario_pose0) quarter_turn_pose) =
     \<lparr>mean = pi / 2,
      stddev = std_sqrt (rotation_noise_from_rotation ps * ((pi / 2) * (pi / 2)))\<rparr>"
  "translation_params
     (update_motion (update_motion (new_DifferentialDriveModel ps) scenario_pose0) quarter_turn_pose) =
     \<lparr>mean = 0,
      stddev = std_sqrt (translation_noise_from_rotation ps * ((pi / 2) * (pi / 2)))\<rparr>"
  by (simp_all add: first_update_state update_motion_def Let_def new_DifferentialDriveModel_def
      scenario_pose0_def quarter_turn_pose_def vec_sub_def vec_norm_def std_atan2_def
      so2_inverse_exp so2_mult_exp rotation_variance_quarter so2_log_quarter)

lemma unit_step_update:
  "first_rotation_params
     (update_motion (update_motion (new_DifferentialDriveModel ps) scenario_pose0) scenario_pose1) =
     \<lparr>mean = 0, stddev = std_sqrt (rotation_noise_from_translation ps)\<rparr>"
  "translation_params
     (update_motion (update_motion (new_DifferentialDriveModel ps) scenario_pose0) scenario_pose1) =
     \<lparr>mean = 1, stddev = std_sqrt (translation_noise_from_translation ps)\<rparr>"
  by (simp_all add: first_update_state update_motion_def Let_def new_DifferentialDriveModel_def
      scenario_pose0_def scenario_pose1_def vec_sub_def vec_norm_def std_atan2_def
      so2_inverse_exp so2_mult_exp rotation_variance_zero so2_log_zero)

lemma negative_params_fields:
  "rotation_noise_from_rotation negative_params < 0"
  "rotation_noise_from_translation negative_params < 0"
  "translation_noise_from_translation negative_params < 0"
  "translation_noise_from_rotation negative_params < 0"
  by (simp_all add: negative_params_def)

lemma zero_noise_draw:
  "normal_distribution normal gen (first_rotation_params (zero_noise m)) =
     (Some (mean (first_rotation_params m)), snd (normal gen))"
  "normal_distribution normal gen (translation_params (zero_noise m)) =
     (Some (mean (translation_params m)), snd (normal gen))"
  "normal_distribution normal gen (second_rotation_params (zero_noise m)) =
     (Some (mean (second_rotation_params m)), snd (normal gen))"
  by (simp_all add: normal_distribution_def zero_noise_def split: prod.split)

lemma apply_motion_zero_noise:
  "fst (apply_motion normal (zero_noise m) state gen) =
     Some (se2_mult
             (se2_mult state \<lparr>so2 = so2_exp (mean (first_rotation_params m)), translation = (0, 0)\<rparr>)
             \<lparr>so2 = so2_exp (mean (second_rotation_params m)),
              translation = (mean (translation_params m), 0)\<rparr>)"
  by (simp add: apply_motion_def zero_noise_draw)

lemma small_step_distance:
  "vec_norm (vec_sub (translation small_step_pose) (translation scenario_pose0)) = 1 / 200"
proof -
  have "sqrt ((1 / 200) * (1 / 200)) = \<bar>1 / 200 :: real\<bar>"
    by (rule real_sqrt_abs2)
  then show ?thesis
    by (simp add: small_step_pose_def scenario_pose0_def vec_sub_def vec_norm_def)
qed

lemma small_step_update:
  "mean (first_rotation_params (update_motion
      (update_motion (new_DifferentialDriveModel scenario_params) scenario_pose0) small_step_pose)) = 0"
  "mean (translation_params (update_motion
      (update_motion (new_DifferentialDriveModel scenario_params) scenario_pose0) small_step_pose)) = 1 / 200"
  "mean (second_rotation_params (update_motion
      (update_motion (new_DifferentialDriveModel scenario_params) scenario_pose0) small_step_pose)) = 0"
proof -
  have turn: "so2 small_step_pose = so2_mult (so2 scenario_pose0) (so2_exp 0)"
    by (simp add: small_step_pose_def scenario_pose0_def so2_mult_one)
  have near: "vec_norm (vec_sub (translation small_step_pose) (translation scenario_pose0))
       \<le> distance_threshold (params (update_motion
            (new_DifferentialDriveModel scenario_params) scenario_pose0))"
    by (simp add: scenario_state1 small_step_distance scenario_params_fields)
  note r = scenario_state1(1) near turn
  show "mean (first_rotation_params (update_motion
      (update_motion (new_DifferentialDriveModel scenario_params) scenario_pose0) small_step_pose)) = 0"
    using r by (simp add: update_motion_def Let_def so2_log_zero)
  show "mean (translation_params (update_motion
      (update_motion (new_DifferentialDriveModel scenario_params) scenario_pose0) small_step_pose)) = 1 / 200"
    using r small_step_distance by (simp add: update_motion_def Let_def)
  show "mean (second_rotation_params (update_motion
      (update_motion (new_DifferentialDriveModel scenario_params) scenario_pose0) small_step_pose)) = 0"
    using r by (simp add: update_motion_def Let_def so2_log_zero small_step_pose_def
        scenario_pose0_def so2_inverse_exp so2_mult_exp)
qed

subsection \<open>The first update and the stored pose\<close>

text \<open>
  C6: the first call of \<open>update_motion\<close> on a fresh instance changes nothing but the stored
  pose: the three noise parameters keep their initial value (mean 0, standard deviation 0),
  and \<open>latest_motion_update\<close> then returns the pose that was passed in.
\<close>

theorem first_update_keeps_parameters:
  "update_motion (new_DifferentialDriveModel ps) pose =
     (new_DifferentialDriveModel ps)\<lparr>last_pose := Some pose\<rparr>
   \<and> first_rotation_params (update_motion (new_DifferentialDriveModel ps) pose) =
       \<lparr>mean = 0, stddev = Some 0\<rparr>
   \<and> translation_params (update_motion (new_DifferentialDriveModel ps) pose) =
       \<lparr>mean = 0, stddev = Some 0\<rparr>
   \<and> second_rotation_params (update_motion (new_DifferentialDriveModel ps) pose) =
       \<lparr>mean = 0, stddev = Some 0\<rparr>
   \<and> latest_motion_update (update_motion (new_DifferentialDriveModel ps) pose) = Some pose"
  by (simp add: update_motion_def new_DifferentialDriveModel_def latest_motion_update_def)

text \<open>
  C7: every call \<open>update_motion p\<close> overwrites the stored pose with \<open>p\<close>, whether or not a
  pose was stored before, so \<open>latest_motion_update\<close> returns \<open>p\<close> right after it; on a fresh
  instance \<open>latest_motion_update\<close> returns nothing. It is a function of the state alone and
  returns no state: it has no side effect.
\<close>

theorem update_overwrites_last_pose:
  "latest_motion_update (update_motion m p) = Some p
   \<and> latest_motion_update (new_DifferentialDriveModel ps) = None"
  by (simp add: update_motion_def latest_motion_update_def new_DifferentialDriveModel_def
      Let_def split: option.split)

subsection \<open>Sampling\<close>

text \<open>
  C1: when the three draws from the current first-rotation, translation and second-rotation
  parameters give the values \<open>f\<close>, \<open>d\<close> and \<open>s\<close>, \<open>apply_motion\<close> returns the right-composition
  of the particle pose with a rotation by \<open>f\<close>, a translation by \<open>d\<close> along the local forward
  axis and a rotation by \<open>s\<close>: the product of two transforms in the code is the product of
  three of the specification.
\<close>

theorem apply_motion_composition:
  assumes "normal_distribution normal gen (first_rotation_params m) = (Some f, gen1)"
    and "normal_distribution normal gen1 (translation_params m) = (Some d, gen2)"
    and "normal_distribution normal gen2 (second_rotation_params m) = (Some s, gen3)"
  shows "apply_motion normal m state gen =
           (Some (se2_mult (se2_mult (se2_mult state (Rotate f)) (Translate (d, 0))) (Rotate s)),
            gen3)
    \<and> apply_motion normal m state gen =
           (Some (se2_mult state (se2_mult (Rotate f) (se2_mult (Translate (d, 0)) (Rotate s)))),
            gen3)"
proof -
  have "se2_mult (Translate (d, 0)) (Rotate s) = \<lparr>so2 = so2_exp s, translation = (d, 0)\<rparr>"
    by (simp add: Rotate_def Translate_def se2_mult_def so2_mult_one so2_act_zero vec_add_def)
  then have "apply_motion normal m state gen =
      (Some (se2_mult (se2_mult state (Rotate f)) (se2_mult (Translate (d, 0)) (Rotate s))), gen3)"
    using assms by (simp add: apply_motion_def Rotate_def)
  then show ?thesis
    by (simp add: se2_mult_assoc)
qed

theorem apply_motion_composition_witness:
  "normal_distribution counting_source 1 (first_rotation_params sample_model) = (Some 3, 2)
   \<and> normal_distribution counting_source 2 (translation_params sample_model) = (Some 3, 3)
   \<and> normal_distribution counting_source 3 (second_rotation_params sample_model) = (Some 3, 4)
   \<and> apply_motion counting_source sample_model \<lparr>so2 = so2_exp 0, translation = (5, 7)\<rparr> 1 =
     (Some (se2_mult (se2_mult (se2_mult \<lparr>so2 = so2_exp 0, translation = (5, 7)\<rparr> (Rotate 3))
        (Translate (3, 0))) (Rotate 3)), 4)"
  using apply_motion_composition [where normal = counting_source and gen = 1 and m = sample_model
      and f = 3 and d = 3 and s = 3 and ?gen1.0 = 2 and ?gen2.0 = 3 and ?gen3.0 = 4
      and state = "\<lparr>so2 = so2_exp 0, translation = (5, 7)\<rparr>"]
  by (simp add: normal_distribution_def counting_source_def sample_model_def)


text \<open>
  C10: before any update, and after exactly one, the three noise parameters are
  (mean 0, standard deviation 0), and \<open>apply_motion\<close> returns the particle pose unchanged,
  for every random source.
\<close>

theorem initial_motion_is_identity:
  "first_rotation_params (new_DifferentialDriveModel ps) = \<lparr>mean = 0, stddev = Some 0\<rparr>
   \<and> translation_params (new_DifferentialDriveModel ps) = \<lparr>mean = 0, stddev = Some 0\<rparr>
   \<and> second_rotation_params (new_DifferentialDriveModel ps) = \<lparr>mean = 0, stddev = Some 0\<rparr>
   \<and> fst (apply_motion normal (new_DifferentialDriveModel ps) state gen) = Some state
   \<and> fst (apply_motion normal (update_motion (new_DifferentialDriveModel ps) pose) state gen)
       = Some state"
  by (simp add: update_motion_def new_DifferentialDriveModel_def apply_motion_def
      normal_distribution_def se2_mult_identity split: prod.split)

subsection \<open>The rotation variance\<close>

text \<open>
  C5: the rotation variance is the square of the smaller of \<open>|angle r|\<close> and
  \<open>|angle (r \<circ> half_turn)|\<close>; it does not change when the rotation is composed with a half
  turn, so it is the same at \<open>\<theta>\<close> and \<open>\<theta> + \<pi>\<close> (and at \<open>\<theta> + 2\<pi>\<close>), and it is \<open>0\<close> at the
  zero rotation.
\<close>

theorem rotation_variance_half_turn_symmetric:
  "rotation_variance r = (min \<bar>so2_log r\<bar> \<bar>so2_log (so2_mult r (so2_exp pi))\<bar>)\<^sup>2
   \<and> rotation_variance (so2_mult r (so2_exp pi)) = rotation_variance r
   \<and> rotation_variance (so2_exp (theta + pi)) = rotation_variance (so2_exp theta)
   \<and> rotation_variance (so2_exp (theta + 2 * pi)) = rotation_variance (so2_exp theta)
   \<and> rotation_variance (so2_exp 0) = 0"
proof -
  have "rotation_variance r = (min \<bar>so2_log r\<bar> \<bar>so2_log (so2_mult r (so2_exp pi))\<bar>)\<^sup>2"
    by (simp add: rotation_variance_def Let_def power2_eq_square)
  moreover have "rotation_variance (so2_exp (theta + pi)) = rotation_variance (so2_exp theta)"
    using rotation_variance_flip [of "so2_exp theta"] by (simp add: so2_mult_exp)
  ultimately show ?thesis
    by (simp add: rotation_variance_flip rotation_variance_zero so2_exp_period)
qed

subsection \<open>The published noise parameters\<close>

text \<open>
  C2: after a call of \<open>update_motion\<close> with a stored last pose, the means are the angle of
  the first rotation, the distance and the angle of the second rotation, and each standard
  deviation is the square root of the weighted sum of a rotation variance and the squared
  distance given by the table of the specification; the translation uses the variance of
  the combined rotation \<open>first_rotation \<circ> second_rotation\<close>.
\<close>

theorem published_noise_parameters:
  assumes "last_pose m = Some prev"
  shows "mean (first_rotation_params (update_motion m pose)) =
           so2_log (spec_first_rotation (distance_threshold (params m)) prev pose)
    \<and> mean (translation_params (update_motion m pose)) = odometry_distance prev pose
    \<and> mean (second_rotation_params (update_motion m pose)) =
           so2_log (spec_second_rotation (distance_threshold (params m)) prev pose)
    \<and> stddev (first_rotation_params (update_motion m pose)) =
         std_sqrt (rotation_noise_from_rotation (params m) *
                     rot_var (spec_first_rotation (distance_threshold (params m)) prev pose) +
                   rotation_noise_from_translation (params m) * (odometry_distance prev pose)\<^sup>2)
    \<and> stddev (translation_params (update_motion m pose)) =
         std_sqrt (translation_noise_from_translation (params m) * (odometry_distance prev pose)\<^sup>2 +
                   translation_noise_from_rotation (params m) *
                     rot_var (so2_mult (spec_first_rotation (distance_threshold (params m)) prev pose)
                                (spec_second_rotation (distance_threshold (params m)) prev pose)))
    \<and> stddev (second_rotation_params (update_motion m pose)) =
         std_sqrt (rotation_noise_from_rotation (params m) *
                     rot_var (spec_second_rotation (distance_threshold (params m)) prev pose) +
                   rotation_noise_from_translation (params m) * (odometry_distance prev pose)\<^sup>2)"
  using assms
  by (simp add: update_motion_def Let_def spec_first_rotation_def spec_second_rotation_def
      odometry_distance_def rot_var_eq vec_sub_def power2_eq_square)

theorem published_noise_parameters_witness:
  "last_pose (update_motion (new_DifferentialDriveModel scenario_params) scenario_pose0) =
     Some scenario_pose0
   \<and> mean (first_rotation_params
        (update_motion (update_motion (new_DifferentialDriveModel scenario_params) scenario_pose0)
           scenario_pose1)) = 0
   \<and> mean (translation_params
        (update_motion (update_motion (new_DifferentialDriveModel scenario_params) scenario_pose0)
           scenario_pose1)) = 1
   \<and> mean (second_rotation_params
        (update_motion (update_motion (new_DifferentialDriveModel scenario_params) scenario_pose0)
           scenario_pose1)) = 0
   \<and> stddev (first_rotation_params
        (update_motion (update_motion (new_DifferentialDriveModel scenario_params) scenario_pose0)
           scenario_pose1)) = Some (sqrt (1 / 10))
   \<and> stddev (translation_params
        (update_motion (update_motion (new_DifferentialDriveModel scenario_params) scenario_pose0)
           scenario_pose1)) = Some (sqrt (1 / 10))
   \<and> stddev (second_rotation_params
        (update_motion (update_motion (new_DifferentialDriveModel scenario_params) scenario_pose0)
           scenario_pose1)) = Some (sqrt (1 / 10))"
proof -
  let ?m = "update_motion (new_DifferentialDriveModel scenario_params) scenario_pose0"
  have stored: "last_pose ?m = Some scenario_pose0"
    by (rule update_motion_last_pose)
  have ps: "params ?m = scenario_params"
    by (simp add: update_motion_params new_DifferentialDriveModel_def)
  show ?thesis
    using published_noise_parameters [OF stored, of scenario_pose1] stored
    by (simp add: ps scenario_params_fields scenario_distance01 scenario_first01 scenario_second01
        so2_mult_one rot_var_zero so2_log_zero std_sqrt_def)
qed

subsection \<open>The decomposition of an odometry step\<close>

text \<open>
  C3: after a call of \<open>update_motion\<close> with a stored last pose, the first rotation, read back
  from its published angle, is the heading \<open>atan2 (dy, dx)\<close> of the translation composed with
  the inverse of the last orientation when the distance is strictly above the threshold, and
  the zero rotation otherwise; the second rotation is the new orientation composed with the
  inverse of the last orientation and the inverse of the first rotation.
\<close>

theorem decomposition_rotations:
  assumes "last_pose m = Some prev"
  shows "so2_exp (mean (first_rotation_params (update_motion m pose))) =
           (if vec_norm (vec_sub (translation pose) (translation prev)) > distance_threshold (params m)
            then so2_mult
                   (so2_exp (std_atan2 (snd (vec_sub (translation pose) (translation prev)))
                                       (fst (vec_sub (translation pose) (translation prev)))))
                   (so2_inverse (so2 prev))
            else so2_exp 0)
    \<and> so2_exp (mean (second_rotation_params (update_motion m pose))) =
           so2_mult (so2_mult (so2 pose) (so2_inverse (so2 prev)))
             (so2_inverse (so2_exp (mean (first_rotation_params (update_motion m pose)))))"
  using assms
  by (simp add: update_motion_def Let_def so2_exp_log)

theorem decomposition_rotations_witness:
  "last_pose (update_motion (new_DifferentialDriveModel scenario_params) scenario_pose0) =
     Some scenario_pose0
   \<and> so2_exp (mean (first_rotation_params
        (update_motion (update_motion (new_DifferentialDriveModel scenario_params) scenario_pose0)
           scenario_pose1))) = so2_exp 0
   \<and> so2_exp (mean (second_rotation_params
        (update_motion (update_motion (new_DifferentialDriveModel scenario_params) scenario_pose0)
           scenario_pose1))) = so2_exp 0"
proof -
  have d: "vec_norm (vec_sub (translation scenario_pose1) (translation scenario_pose0)) = 1"
    using scenario_distance01 by (simp add: odometry_distance_def)
  have a: "std_atan2 (snd (vec_sub (translation scenario_pose1) (translation scenario_pose0)))
             (fst (vec_sub (translation scenario_pose1) (translation scenario_pose0))) = 0"
    by (simp add: scenario_pose0_def scenario_pose1_def vec_sub_def std_atan2_def)
  have o: "so2 scenario_pose0 = so2_exp 0" "so2 scenario_pose1 = so2_exp 0"
    by (simp_all add: scenario_pose0_def scenario_pose1_def)
  note r = decomposition_rotations [OF scenario_state1(1), of scenario_pose1]
  from r have f: "so2_exp (mean (first_rotation_params
        (update_motion (update_motion (new_DifferentialDriveModel scenario_params) scenario_pose0)
           scenario_pose1))) = so2_exp 0"
    by (simp add: scenario_state1 scenario_params_fields d a o so2_inverse_exp so2_mult_exp)
  from r have "so2_exp (mean (second_rotation_params
        (update_motion (update_motion (new_DifferentialDriveModel scenario_params) scenario_pose0)
           scenario_pose1))) = so2_exp 0"
    unfolding f by (simp add: o so2_inverse_exp so2_mult_exp)
  with f show ?thesis
    by (simp add: scenario_state1)
qed

text \<open>
  C8: when the distance is at or below the threshold and the new orientation is the last
  one turned by \<open>\<theta>\<close>, the mean of the first rotation is \<open>0\<close>, the mean of the translation is
  the distance, and the mean of the second rotation is \<open>\<theta>\<close> wrapped into \<open>(-\<pi>, \<pi>]\<close>: it lies
  in that interval, is the same rotation as \<open>\<theta>\<close>, and is \<open>\<theta>\<close> itself when \<open>\<theta>\<close> lies there. In
  the scenario \<open>(0,0,0) \<rightarrow> (1,0,0) \<rightarrow> (1,0,\<pi>/2)\<close> with threshold \<open>0.01\<close>, the means after the
  last pose are \<open>0\<close>, \<open>0\<close> and \<open>\<pi>/2\<close>.
\<close>

theorem in_place_rotation_means:
  assumes "last_pose m = Some prev"
    and "vec_norm (vec_sub (translation pose) (translation prev)) \<le> distance_threshold (params m)"
    and "so2 pose = so2_mult (so2 prev) (so2_exp theta)"
  shows "mean (first_rotation_params (update_motion m pose)) = 0
    \<and> mean (translation_params (update_motion m pose)) =
        vec_norm (vec_sub (translation pose) (translation prev))
    \<and> mean (second_rotation_params (update_motion m pose)) = so2_log (so2_exp theta)
    \<and> so2_exp (mean (second_rotation_params (update_motion m pose))) = so2_exp theta
    \<and> - pi < mean (second_rotation_params (update_motion m pose))
    \<and> mean (second_rotation_params (update_motion m pose)) \<le> pi
    \<and> (- pi < theta \<and> theta \<le> pi \<longrightarrow>
         mean (second_rotation_params (update_motion m pose)) = theta)"
proof -
  have "so2_mult (so2_mult (so2_mult (so2 prev) (so2_exp theta)) (so2_inverse (so2 prev)))
          (so2_inverse (so2_exp 0)) = so2_exp theta"
    using so2_conjugate [of "so2 prev" "so2_exp theta"]
    by (simp add: so2_inverse_exp so2_mult_one so2_mult_assoc)
  then have second: "mean (second_rotation_params (update_motion m pose)) = so2_log (so2_exp theta)"
    using assms by (simp add: update_motion_def Let_def)
  have first: "mean (first_rotation_params (update_motion m pose)) = 0"
    using assms by (simp add: update_motion_def Let_def so2_log_zero)
  have trans: "mean (translation_params (update_motion m pose)) =
        vec_norm (vec_sub (translation pose) (translation prev))"
    using assms by (simp add: update_motion_def Let_def)
  show ?thesis
    using so2_log_bounds [of "so2_exp theta"]
    by (simp add: first second trans so2_exp_log so2_log_exp)
qed

theorem in_place_rotation_means_witness:
  "last_pose (update_motion (update_motion (new_DifferentialDriveModel scenario_params)
       scenario_pose0) scenario_pose1) = Some scenario_pose1
   \<and> vec_norm (vec_sub (translation scenario_pose2) (translation scenario_pose1))
       \<le> distance_threshold scenario_params
   \<and> so2 scenario_pose2 = so2_mult (so2 scenario_pose1) (so2_exp (pi / 2))
   \<and> - pi < pi / 2 \<and> pi / 2 \<le> pi
   \<and> mean (first_rotation_params (update_motion (update_motion (update_motion
        (new_DifferentialDriveModel scenario_params) scenario_pose0) scenario_pose1)
        scenario_pose2)) = 0
   \<and> mean (translation_params (update_motion (update_motion (update_motion
        (new_DifferentialDriveModel scenario_params) scenario_pose0) scenario_pose1)
        scenario_pose2)) = 0
   \<and> mean (second_rotation_params (update_motion (update_motion (update_motion
        (new_DifferentialDriveModel scenario_params) scenario_pose0) scenario_pose1)
        scenario_pose2)) = pi / 2"
proof -
  have near: "vec_norm (vec_sub (translation scenario_pose2) (translation scenario_pose1))
       \<le> distance_threshold (params (update_motion (update_motion
            (new_DifferentialDriveModel scenario_params) scenario_pose0) scenario_pose1))"
    by (simp add: scenario_state2 scenario_distance12 scenario_params_fields)
  have turn: "so2 scenario_pose2 = so2_mult (so2 scenario_pose1) (so2_exp (pi / 2))"
    by (simp add: scenario_pose1_def scenario_pose2_def so2_mult_one)
  show ?thesis
    using in_place_rotation_means [OF scenario_state2(1) near turn] turn
    by (simp add: scenario_state2 scenario_distance12 scenario_params_fields)
qed


subsection \<open>Negative coefficients\<close>

text \<open>
  C9: the constructor stores any parameters as they are, negative coefficients included.
  A negative coefficient shows only in a later update: for each of the four coefficients
  there is a motion (a quarter turn in place, or a unit step ahead) after which the weighted
  sum under a square root is negative, and the published standard deviation is NaN. The
  update raises no error: it returns a state, with the pose stored.
\<close>

theorem negative_coefficients_unchecked:
  "params (new_DifferentialDriveModel ps) = ps
   \<and> (rotation_noise_from_rotation ps < 0 \<longrightarrow>
        stddev (second_rotation_params (update_motion
          (update_motion (new_DifferentialDriveModel ps) scenario_pose0) quarter_turn_pose)) = None)
   \<and> (translation_noise_from_rotation ps < 0 \<longrightarrow>
        stddev (translation_params (update_motion
          (update_motion (new_DifferentialDriveModel ps) scenario_pose0) quarter_turn_pose)) = None)
   \<and> (rotation_noise_from_translation ps < 0 \<longrightarrow>
        stddev (first_rotation_params (update_motion
          (update_motion (new_DifferentialDriveModel ps) scenario_pose0) scenario_pose1)) = None)
   \<and> (translation_noise_from_translation ps < 0 \<longrightarrow>
        stddev (translation_params (update_motion
          (update_motion (new_DifferentialDriveModel ps) scenario_pose0) scenario_pose1)) = None)
   \<and> latest_motion_update (update_motion
          (update_motion (new_DifferentialDriveModel ps) scenario_pose0) quarter_turn_pose) =
        Some quarter_turn_pose
   \<and> latest_motion_update (update_motion
          (update_motion (new_DifferentialDriveModel ps) scenario_pose0) scenario_pose1) =
        Some scenario_pose1"
proof -
  have neg: "c < 0 \<Longrightarrow> c * ((pi / 2) * (pi / 2)) < 0" for c :: real
    by (simp add: mult_less_0_iff)
  have stored: "params (new_DifferentialDriveModel ps) = ps"
    by (simp add: new_DifferentialDriveModel_def)
  show ?thesis
    using neg
    by (simp add: stored quarter_turn_update unit_step_update std_sqrt_def
        latest_motion_update_def update_motion_last_pose del: times_divide_eq_left times_divide_eq_right)
qed

theorem negative_coefficients_unchecked_witness:
  "rotation_noise_from_rotation negative_params < 0
   \<and> translation_noise_from_rotation negative_params < 0
   \<and> rotation_noise_from_translation negative_params < 0
   \<and> translation_noise_from_translation negative_params < 0
   \<and> params (new_DifferentialDriveModel negative_params) = negative_params
   \<and> stddev (second_rotation_params (update_motion
          (update_motion (new_DifferentialDriveModel negative_params) scenario_pose0)
          quarter_turn_pose)) = None
   \<and> stddev (translation_params (update_motion
          (update_motion (new_DifferentialDriveModel negative_params) scenario_pose0)
          quarter_turn_pose)) = None
   \<and> stddev (first_rotation_params (update_motion
          (update_motion (new_DifferentialDriveModel negative_params) scenario_pose0)
          scenario_pose1)) = None
   \<and> stddev (translation_params (update_motion
          (update_motion (new_DifferentialDriveModel negative_params) scenario_pose0)
          scenario_pose1)) = None"
  using negative_coefficients_unchecked [of negative_params]
  by (simp add: negative_params_fields)


subsection \<open>Recomposing the decomposition\<close>

text \<open>
  C4, as stated, fails: with the threshold \<open>0.01\<close>, the step from \<open>(0, 0, 0)\<close> to
  \<open>(0, 0.005, 0)\<close> is decomposed into a zero first rotation, a translation of \<open>0.005\<close> and a
  zero second rotation, and sampling with zero noise moves \<open>(0, 0, 0)\<close> to \<open>(0.005, 0, 0)\<close>.
\<close>

theorem roundtrip_counterexample:
  "fst (apply_motion counting_source
         (zero_noise (update_motion
            (update_motion (new_DifferentialDriveModel scenario_params) scenario_pose0)
            small_step_pose))
         scenario_pose0 1) = Some \<lparr>so2 = so2_exp 0, translation = (1 / 200, 0)\<rparr>
   \<and> fst (apply_motion counting_source
         (zero_noise (update_motion
            (update_motion (new_DifferentialDriveModel scenario_params) scenario_pose0)
            small_step_pose))
         scenario_pose0 1) \<noteq> Some small_step_pose"
proof -
  have moved: "fst (apply_motion counting_source
         (zero_noise (update_motion
            (update_motion (new_DifferentialDriveModel scenario_params) scenario_pose0)
            small_step_pose))
         scenario_pose0 1) =
       Some (se2_mult (se2_mult scenario_pose0 \<lparr>so2 = so2_exp 0, translation = (0, 0)\<rparr>)
               \<lparr>so2 = so2_exp 0, translation = (1 / 200, 0)\<rparr>)"
    by (simp add: apply_motion_zero_noise small_step_update)
  have "se2_mult (se2_mult scenario_pose0 \<lparr>so2 = so2_exp 0, translation = (0, 0)\<rparr>)
          \<lparr>so2 = so2_exp 0, translation = (1 / 200, 0)\<rparr> =
        \<lparr>so2 = so2_exp 0, translation = (1 / 200, 0)\<rparr>"
    by (simp add: se2_mult_def scenario_pose0_def so2_mult_one so2_act_zero so2_act_exp
        vec_add_def)
  with moved show ?thesis
    by (simp add: small_step_pose_def)
qed

text \<open>
  C4, amended: when the distance between the two poses is strictly above the threshold, or
  the two translations are equal, sampling with zero noise from the parameters of the update
  maps the last pose to the new pose, in exact real arithmetic.
\<close>

theorem roundtrip_beyond_threshold:
  assumes "last_pose m = Some prev"
    and "vec_norm (vec_sub (translation pose) (translation prev)) > distance_threshold (params m)
         \<or> translation pose = translation prev"
  shows "fst (apply_motion normal (zero_noise (update_motion m pose)) prev gen) = Some pose"
proof -
  let ?t = "vec_sub (translation pose) (translation prev)"
  let ?m' = "update_motion m pose"
  let ?first = "so2_exp (mean (first_rotation_params ?m'))"
  let ?second = "so2_exp (mean (second_rotation_params ?m'))"
  have second: "?second = so2_mult (so2_mult (so2 pose) (so2_inverse (so2 prev))) (so2_inverse ?first)"
    using assms(1) by (simp add: update_motion_def Let_def so2_exp_log)
  have rot: "so2_mult (so2_mult (so2 prev) ?first) ?second = so2 pose"
    by (simp only: second so2_residual)
  have dist: "mean (translation_params ?m') = vec_norm ?t"
    using assms(1) by (simp add: update_motion_def Let_def)
  have move: "so2_act (so2_mult (so2 prev) ?first) (vec_norm ?t, 0) = ?t"
  proof (cases "vec_norm ?t > distance_threshold (params m)")
    case True
    then have "?first = so2_mult (so2_exp (std_atan2 (snd ?t) (fst ?t))) (so2_inverse (so2 prev))"
      using assms(1) by (simp add: update_motion_def Let_def so2_exp_log)
    then show ?thesis
      by (simp add: so2_conjugate so2_act_atan2)
  next
    case False
    with assms(2) have "translation pose = translation prev"
      by simp
    then have "?t = (0, 0)"
      by (simp add: vec_sub_def)
    then show ?thesis
      by (simp add: vec_norm_def so2_act_zero)
  qed
  show ?thesis
    by (simp add: apply_motion_zero_noise se2_mult_def rot dist move so2_act_zero vec_add_def
        vec_add_sub [unfolded vec_add_def])
qed


theorem roundtrip_beyond_threshold_witness:
  "last_pose (update_motion (new_DifferentialDriveModel scenario_params) scenario_pose0) =
     Some scenario_pose0
   \<and> vec_norm (vec_sub (translation scenario_pose1) (translation scenario_pose0))
       > distance_threshold scenario_params
   \<and> fst (apply_motion counting_source
         (zero_noise (update_motion
            (update_motion (new_DifferentialDriveModel scenario_params) scenario_pose0)
            scenario_pose1))
         scenario_pose0 1) = Some scenario_pose1"
proof -
  have far: "vec_norm (vec_sub (translation scenario_pose1) (translation scenario_pose0)) >
       distance_threshold (params (update_motion
            (new_DifferentialDriveModel scenario_params) scenario_pose0))
       \<or> translation scenario_pose1 = translation scenario_pose0"
    using scenario_distance01
    by (simp add: scenario_state1 odometry_distance_def scenario_params_fields)
  have d: "vec_norm (vec_sub (translation scenario_pose1) (translation scenario_pose0)) = 1"
    using scenario_distance01 by (simp add: odometry_distance_def)
  show ?thesis
    using roundtrip_beyond_threshold [OF scenario_state1(1) far, of counting_source 1]
    by (simp add: scenario_state1 scenario_params_fields d)
qed

end
